theory Spec2Isabelle
  imports Complex_Main
begin

section \<open>The MercuryiPS driver: data\<close>

text \<open>
  The driver (\<^verbatim>\<open>src/mercuryiPS.py\<close>) is one class. It keeps a single field of its
  own, the magnet's temperature limit \<^verbatim>\<open>t_limit\<close>, and talks to the power supply by
  \<^verbatim>\<open>self.ask(command)\<close>, one line out and one line back. Its methods raise Python
  exceptions, sleep and print. All of that is written out here:
  \<^item> the exceptions are values of the type \<open>error\<close>;
  \<^item> what the driver does to the outside world is the list of \<open>event\<close>s it appends
    to: every command sent, every sleep, every line printed;
  \<^item> Python's floats are real numbers (rounding, infinities and NaN are left out);
  \<^item> the functions of Python itself that the driver calls on numbers (\<^verbatim>\<open>float\<close>,
    \<^verbatim>\<open>str\<close>, the format \<^verbatim>\<open>.1f\<close>) and the replies of the instrument are not given
    by the repository: they are the fields of an environment \<open>env\<close>, and every theorem
    holds for every environment.
\<close>

text \<open>
  \<open>IndexError\<close>, \<open>ValueError\<close> (with its message), \<open>TypeError\<close> and \<open>ZeroDivisionError\<close>
  are Python's own; \<open>VisaIOError\<close> is a failure of the transport; \<open>ValidationError\<close>
  (with the allowed range) and \<open>InvalidEnumError\<close> (with the rejected word) are
  the two errors of the quantity registry, under the names the specification
  gives them.
\<close>

datatype error =
    IndexError
  | ValueError string
  | TypeError
  | ZeroDivisionError
  | VisaIOError
  | ValidationError real real
  | InvalidEnumError string

datatype event =
    Ask string
  | Sleep real
  | Print string
  | TqdmWrite string

text \<open>
  \<open>visa_reply w k\<close> is what comes back for the \<open>k\<close>-th command of a run (counted from
  0): a line, or a failure of the transport. The driver is sequential and
  deterministic, so one run of it sees exactly one such sequence, whatever the
  instrument is.
\<close>

record env =
  py_float :: "string \<Rightarrow> error + real"
  py_str :: "real \<Rightarrow> string"
  py_format_1f :: "real \<Rightarrow> string"
  visa_reply :: "nat \<Rightarrow> error + string"

text \<open>
  The driver's state: its field \<^verbatim>\<open>t_limit\<close>, the number of commands it has sent, and
  the events so far.
\<close>

record instr =
  t_limit :: real
  asked :: nat
  trace :: "event list"

text \<open>The constructor: \<^verbatim>\<open>self.t_limit = 5.0\<close>, \<^verbatim>\<open>self.psu_string = 'PSU'\<close>, \<^verbatim>\<open>self.uid = 'GRPZ'\<close>.\<close>

definition init :: instr where
  "init = \<lparr>t_limit = 5, asked = 0, trace = []\<rparr>"

definition psu_string :: string where
  "psu_string = ''PSU''"

definition uid :: string where
  "uid = ''GRPZ''"

text \<open>The commands sent so far, in order: the \<open>Ask\<close> events of the trace.\<close>

definition commands :: "instr \<Rightarrow> string list" where
  "commands s = concat (map (\<lambda>ev. case ev of Ask c \<Rightarrow> [c] | _ \<Rightarrow> []) (trace s))"

section \<open>The reply parsers\<close>

text \<open>
  \<^verbatim>\<open>value.split(':')\<close>: Python's split on a separator keeps empty fields and always
  returns at least one field. \<^verbatim>\<open>xs[-1]\<close> raises IndexError on an empty list, and the
  slice \<^verbatim>\<open>s[:-n]\<close> drops the last \<open>n\<close> characters (all of them when there are fewer).
\<close>

fun str_split :: "char \<Rightarrow> string \<Rightarrow> string list" where
  "str_split sep [] = [[]]"
| "str_split sep (c # cs) =
     (if c = sep then [] # str_split sep cs
      else (case str_split sep cs of [] \<Rightarrow> [[c]] | f # fs \<Rightarrow> (c # f) # fs))"

definition index_last :: "'a list \<Rightarrow> error + 'a" where
  "index_last xs = (if xs = [] then Inl IndexError else Inr (last xs))"

definition slice_to_neg :: "nat \<Rightarrow> string \<Rightarrow> string" where
  "slice_to_neg n s = take (length s - n) s"

definition preparser :: "string \<Rightarrow> error + string" where
  "preparser bare_resp = index_last (str_split (CHR '':'') bare_resp)"

definition singleunit_parser :: "(string \<Rightarrow> error + real) \<Rightarrow> string \<Rightarrow> error + real" where
  "singleunit_parser float_of v =
     (case index_last (str_split (CHR '':'') v) of
        Inl e \<Rightarrow> Inl e
      | Inr seg \<Rightarrow> float_of (slice_to_neg 1 seg))"

definition rate_parser :: "(string \<Rightarrow> error + real) \<Rightarrow> string \<Rightarrow> error + real" where
  "rate_parser float_of v =
     (case index_last (str_split (CHR '':'') v) of
        Inl e \<Rightarrow> Inl e
      | Inr seg \<Rightarrow> float_of (slice_to_neg 3 seg))"

section \<open>Actions: state, errors, the transport\<close>

text \<open>
  A method of the driver is a function from the state before to a result and the
  state after. A raised exception is the result \<open>Inl\<close>; the state it leaves is kept,
  as what was sent before a \<^verbatim>\<open>raise\<close> stays sent.
\<close>

type_synonym 'a action = "instr \<Rightarrow> (error + 'a) \<times> instr"

definition ret :: "'a \<Rightarrow> 'a action" where
  "ret x s = (Inr x, s)"

definition raise_err :: "error \<Rightarrow> 'a action" where
  "raise_err e s = (Inl e, s)"

definition lift :: "error + 'a \<Rightarrow> 'a action" where
  "lift r s = (r, s)"

definition and_then :: "'a action \<Rightarrow> ('a \<Rightarrow> 'b action) \<Rightarrow> 'b action" where
  "and_then m f s = (case m s of (Inl e, s') \<Rightarrow> (Inl e, s') | (Inr x, s') \<Rightarrow> f x s')"

definition emit :: "event \<Rightarrow> unit action" where
  "emit ev s = (Inr (), s\<lparr>trace := trace s @ [ev]\<rparr>)"

text \<open>\<^verbatim>\<open>self.ask(cmd)\<close>: the command goes out, then the reply is read (or the transport fails).\<close>

definition ask :: "env \<Rightarrow> string \<Rightarrow> string action" where
  "ask w cmd s =
     (visa_reply w (asked s), s\<lparr>asked := Suc (asked s), trace := trace s @ [Ask cmd]\<rparr>)"

definition sleep :: "real \<Rightarrow> unit action" where
  "sleep seconds = emit (Sleep seconds)"

section \<open>The quantities\<close>

text \<open>
  Modelled from the spec: the class that runs a quantity's \<^verbatim>\<open>get_cmd\<close>,
  \<^verbatim>\<open>get_parser\<close>, \<^verbatim>\<open>set_cmd\<close>, \<^verbatim>\<open>vals\<close> and \<^verbatim>\<open>val_mapping\<close> is the
  \<^verbatim>\<open>Parameter\<close> of qcodes, which is not a file of the repository. Section 4.2 of the
  specification gives what it does: a read sends the read command and applies the
  parser to the reply; a write formats the value into the write command, sends it
  and discards the reply; a quantity with a domain rejects a value outside it
  before any command is sent, with a \<open>ValidationError\<close> carrying the allowed range;
  \<^verbatim>\<open>ramp_status\<close> maps its labels to wire tokens and back, and an unmapped one fails
  with an \<open>InvalidEnumError\<close>. The commands, parsers, range and mapping below are
  those of the table in \<^verbatim>\<open>__init__\<close>.
\<close>

definition read_quantity :: "env \<Rightarrow> string \<Rightarrow> (string \<Rightarrow> error + 'a) \<Rightarrow> 'a action" where
  "read_quantity w get_cmd get_parser = and_then (ask w get_cmd) (\<lambda>reply. lift (get_parser reply))"

definition write_quantity :: "env \<Rightarrow> string \<Rightarrow> unit action" where
  "write_quantity w set_cmd = and_then (ask w set_cmd) (\<lambda>reply. ret ())"

definition val_mapping :: "(string \<times> string) list" where
  "val_mapping =
     [(''HOLD'', ''HOLD''), (''TO SET'', ''RTOS''), (''CLAMP'', ''CLMP''), (''TO ZERO'', ''RTOZ'')]"

definition to_wire :: "string \<Rightarrow> error + string" where
  "to_wire label =
     (case map_of val_mapping label of
        None \<Rightarrow> Inl (InvalidEnumError label)
      | Some token \<Rightarrow> Inr token)"

definition from_wire :: "string \<Rightarrow> error + string" where
  "from_wire token =
     (case map_of (map (\<lambda>(label, tok). (tok, label)) val_mapping) token of
        None \<Rightarrow> Inl (InvalidEnumError token)
      | Some label \<Rightarrow> Inr label)"

definition field_target_set :: "env \<Rightarrow> real \<Rightarrow> unit action" where
  "field_target_set w x =
     write_quantity w (''SET:DEV:'' @ uid @ '':'' @ psu_string @ '':SIG:FSET:'' @ py_str w x)"

definition field_get :: "env \<Rightarrow> real action" where
  "field_get w =
     read_quantity w (''READ:DEV:'' @ uid @ '':'' @ psu_string @ '':SIG:FLD'')
       (singleunit_parser (py_float w))"

definition ramp_status_get :: "env \<Rightarrow> string action" where
  "ramp_status_get w =
     read_quantity w (''READ:DEV:'' @ uid @ '':'' @ psu_string @ '':ACTN'')
       (\<lambda>reply. case preparser reply of Inl e \<Rightarrow> Inl e | Inr token \<Rightarrow> from_wire token)"

definition ramp_status_set :: "env \<Rightarrow> string \<Rightarrow> unit action" where
  "ramp_status_set w x =
     and_then (lift (to_wire x)) (\<lambda>token.
       write_quantity w (''SET:DEV:'' @ uid @ '':'' @ psu_string @ '':ACTN:'' @ token))"

definition temp_get :: "env \<Rightarrow> real action" where
  "temp_get w = read_quantity w ''READ:DEV:MB1.T1:TEMP:SIG:TEMP'' (singleunit_parser (py_float w))"

definition switch_heater_get :: "env \<Rightarrow> string action" where
  "switch_heater_get w =
     read_quantity w (''READ:DEV:'' @ uid @ '':'' @ psu_string @ '':SIG:SWHT'') preparser"

definition switch_heater_set :: "env \<Rightarrow> string \<Rightarrow> unit action" where
  "switch_heater_set w x =
     write_quantity w (''SET:DEV:'' @ uid @ '':'' @ psu_string @ '':SIG:SWHT:'' @ x)"

section \<open>The methods\<close>

definition t_limit_setter :: "real \<Rightarrow> unit action" where
  "t_limit_setter limit s = (Inr (), s\<lparr>t_limit := limit\<rparr>)"

definition t_limit_reader :: "real action" where
  "t_limit_reader s = (Inr (t_limit s), s)"

text \<open>\<^verbatim>\<open>temp_limit\<close> has the two methods above as its commands: nothing is sent.\<close>

definition temp_limit_get :: "real action" where
  "temp_limit_get = t_limit_reader"

definition temp_limit_set :: "real \<Rightarrow> unit action" where
  "temp_limit_set x = t_limit_setter x"

definition switch_heater_on_and_wait :: "env \<Rightarrow> unit action" where
  "switch_heater_on_and_wait w =
     and_then (switch_heater_get w) (\<lambda>heater.
       if heater = ''OFF''
       then and_then (switch_heater_set w ''ON'') (\<lambda>_. sleep (60 * 10))
       else ret ())"

text \<open>
  \<^verbatim>\<open>status = abs((start - current) / (start - stop))\<close>, the first line of
  \<^verbatim>\<open>_print_field_status\<close>: dividing a float by zero raises ZeroDivisionError. The
  event \<open>TqdmWrite\<close> holds the text that is written; both calls end it with a
  carriage return.
\<close>

definition status_fraction :: "real \<Rightarrow> real \<Rightarrow> real \<Rightarrow> error + real" where
  "status_fraction start current stop =
     (if start - stop = 0 then Inl ZeroDivisionError
      else Inr \<bar>(start - current) / (start - stop)\<bar>)"

definition print_field_status :: "env \<Rightarrow> real \<Rightarrow> real \<Rightarrow> real \<Rightarrow> unit action" where
  "print_field_status w start current stop =
     and_then (lift (status_fraction start current stop)) (\<lambda>status.
       if status < 1
       then emit (TqdmWrite (''Magnetic field ramp '' @ py_format_1f w (status * 100) @ ''% done''
                             @ replicate 30 (CHR '' '')))
       else emit (TqdmWrite (''Waiting for field stabilization'' @ replicate 30 (CHR '' ''))))"

definition ramp_to_target :: "env \<Rightarrow> unit action" where
  "ramp_to_target w =
     and_then (ramp_status_get w) (\<lambda>status.
     and_then (if status = ''CLAMP'' then ramp_status_set w ''HOLD'' else ret ()) (\<lambda>_.
       ramp_status_set w ''TO SET''))"

text \<open>
  The message of the \<^verbatim>\<open>ValueError\<close> raised when the magnet is too warm: four adjacent
  string literals, the last two formatted with \<^verbatim>\<open>self.temp_limit()\<close> and \<^verbatim>\<open>self.temp()\<close>.
\<close>

definition temperature_message :: "env \<Rightarrow> real \<Rightarrow> real \<Rightarrow> string" where
  "temperature_message w limit reached =
     ''Magnet ramp stopped since its temperature'' @ ''exceeded the safety limit:''
     @ ''Temperature safety limit = '' @ py_str w limit
     @ ''Temperature reached = '' @ py_str w reached"

text \<open>
  One turn of the \<^verbatim>\<open>while\<close> loop of \<^verbatim>\<open>set_field_and_ramp_blocking\<close>: its condition,
  then its body. The result \<open>True\<close> means that the body ran to its end and the loop
  goes round again, \<open>False\<close> that the condition failed and the loop is left. In
  \<^verbatim>\<open>self.temp() > self.temp_limit()\<close> the temperature is read first; the message of the
  error calls \<^verbatim>\<open>self.temp_limit()\<close> and \<^verbatim>\<open>self.temp()\<close> again, after the write of HOLD.
\<close>

definition poll :: "env \<Rightarrow> real \<Rightarrow> real \<Rightarrow> bool action" where
  "poll w start target =
     and_then (ramp_status_get w) (\<lambda>status.
       if status = ''TO SET'' then
         and_then (temp_get w) (\<lambda>t.
         and_then temp_limit_get (\<lambda>limit.
           if t > limit then
             and_then (ramp_status_set w ''HOLD'') (\<lambda>_.
             and_then temp_limit_get (\<lambda>limit'.
             and_then (temp_get w) (\<lambda>t'.
               raise_err (ValueError (temperature_message w limit' t')))))
           else
             and_then (sleep (1 / 10)) (\<lambda>_.
             and_then (field_get w) (\<lambda>current.
             and_then (print_field_status w start current target) (\<lambda>_.
               ret True)))))
       else ret False)"

text \<open>
  The loop itself. Nothing bounds the number of its turns (an instrument that
  answers \<^verbatim>\<open>RTOS\<close> for ever keeps it running), so the result is an option and
  \<open>None\<close> stands for a run that never returns.
\<close>

partial_function (option) ramp_loop ::
  "env \<Rightarrow> real \<Rightarrow> real \<Rightarrow> instr \<Rightarrow> ((error + unit) \<times> instr) option" where
  "ramp_loop w start target s =
     (case poll w start target s of
        (Inl e, s') \<Rightarrow> Some (Inl e, s')
      | (Inr again, s') \<Rightarrow> if again then ramp_loop w start target s' else Some (Inr (), s'))"

text \<open>
  \<^verbatim>\<open>raise print(...)\<close> prints the line, and then raises what \<^verbatim>\<open>print\<close> returned, which
  is \<^verbatim>\<open>None\<close>: Python answers that with a \<^verbatim>\<open>TypeError\<close> (exceptions must derive from
  BaseException).
\<close>

definition set_field_and_ramp_blocking ::
  "env \<Rightarrow> real \<Rightarrow> instr \<Rightarrow> ((error + unit) \<times> instr) option" where
  "set_field_and_ramp_blocking w target s =
     (case switch_heater_get w s of
        (Inl e, s1) \<Rightarrow> Some (Inl e, s1)
      | (Inr heater, s1) \<Rightarrow>
          if heater = ''OFF'' then
            Some (and_then
                    (emit (Print ''Switch heater is off. Use switch_heater_on_and_wait() function.''))
                    (\<lambda>_. raise_err TypeError) s1)
          else
            (case and_then (field_get w) (\<lambda>start.
                  and_then (field_target_set w target) (\<lambda>_.
                  and_then (ramp_to_target w) (\<lambda>_. ret start))) s1 of
               (Inl e, s2) \<Rightarrow> Some (Inl e, s2)
             | (Inr start, s2) \<Rightarrow> ramp_loop w start target s2))"

text \<open>
  Modelled from the spec: writing the quantity \<^verbatim>\<open>field\<close> goes through the check of its
  domain, \<^verbatim>\<open>vals.Numbers(min_value = -7.0, max_value = 7.0)\<close>, which qcodes runs before
  the quantity's \<^verbatim>\<open>set_cmd\<close>, here \<^verbatim>\<open>set_field_and_ramp_blocking\<close>.
\<close>

definition field_set :: "env \<Rightarrow> real \<Rightarrow> instr \<Rightarrow> ((error + unit) \<times> instr) option" where
  "field_set w x s =
     (if - 7 \<le> x \<and> x \<le> 7 then set_field_and_ramp_blocking w x s
      else Some (Inl (ValidationError (- 7) 7), s))"


section \<open>Replies, as the driver reads them\<close>

text \<open>
  What the \<open>k\<close>-th reply of a run is to the driver: the result of a parser on it, or
  the transport's failure. \<open>token_at\<close> reads it as a status word, \<open>number_at\<close> as a
  magnitude with its unit; \<open>answered\<close> only says that a reply came.
\<close>

definition reply_as :: "env \<Rightarrow> nat \<Rightarrow> (string \<Rightarrow> error + 'a) \<Rightarrow> error + 'a" where
  "reply_as w k parser = (case visa_reply w k of Inl e \<Rightarrow> Inl e | Inr reply \<Rightarrow> parser reply)"

definition token_at :: "env \<Rightarrow> nat \<Rightarrow> error + string" where
  "token_at w k = reply_as w k preparser"

definition number_at :: "env \<Rightarrow> nat \<Rightarrow> error + real" where
  "number_at w k = reply_as w k (singleunit_parser (py_float w))"

definition answered :: "env \<Rightarrow> nat \<Rightarrow> bool" where
  "answered w k = (case visa_reply w k of Inl e \<Rightarrow> False | Inr reply \<Rightarrow> True)"

text \<open>
  The three replies from the \<open>k\<close>-th on are those of an uneventful turn of the loop:
  the supply is still ramping (\<^verbatim>\<open>RTOS\<close>), the magnet is no warmer than the limit, and
  the field can be read.
\<close>

definition steady :: "env \<Rightarrow> real \<Rightarrow> nat \<Rightarrow> bool" where
  "steady w limit k =
     (token_at w k = Inr ''RTOS''
      \<and> (case number_at w (k + 1) of Inl e \<Rightarrow> False | Inr t \<Rightarrow> t \<le> limit)
      \<and> (case number_at w (k + 2) of Inl e \<Rightarrow> False | Inr current \<Rightarrow> True))"

section \<open>A test bench\<close>

subsection \<open>Decimal literals\<close>

text \<open>
  The examples need one concrete reading of numbers. \<open>decimal_float\<close> reads the plain
  decimal literals that \<^verbatim>\<open>float\<close> reads (a sign, digits, a point, digits; at least
  one digit) and gives their exact value; it is used on such literals only.
  \<open>str_tenths\<close> writes a number with one digit after the point, which is what
  \<^verbatim>\<open>str\<close> and \<^verbatim>\<open>.1f\<close> give for a multiple of one tenth.
\<close>

definition digit_val :: "char \<Rightarrow> nat option" where
  "digit_val c =
     (let n = (of_char c :: nat) in if 48 \<le> n \<and> n \<le> 57 then Some (n - 48) else None)"

fun digits_val :: "nat \<Rightarrow> string \<Rightarrow> nat option" where
  "digits_val acc [] = Some acc"
| "digits_val acc (c # cs) =
     (case digit_val c of None \<Rightarrow> None | Some d \<Rightarrow> digits_val (10 * acc + d) cs)"

definition unsigned_decimal :: "string \<Rightarrow> real option" where
  "unsigned_decimal s =
     (let ip = takeWhile (\<lambda>c. c \<noteq> CHR ''.'') s;
          fp = drop 1 (dropWhile (\<lambda>c. c \<noteq> CHR ''.'') s)
      in if ip = [] \<and> fp = [] then None
         else (case digits_val 0 ip of
                 None \<Rightarrow> None
               | Some a \<Rightarrow>
                   (case digits_val 0 fp of
                      None \<Rightarrow> None
                    | Some b \<Rightarrow> Some (real a + real b / 10 ^ length fp))))"

definition decimal_float :: "string \<Rightarrow> error + real" where
  "decimal_float s =
     (let neg = (take 1 s = ''-'');
          body = (if take 1 s = ''-'' \<or> take 1 s = ''+'' then drop 1 s else s)
      in case unsigned_decimal body of
           None \<Rightarrow> Inl (ValueError ''could not convert string to float'')
         | Some v \<Rightarrow> Inr (if neg then - v else v))"

fun digits_of :: "nat \<Rightarrow> string" where
  "digits_of n =
     (if n < 10 then [''0123456789'' ! n]
      else digits_of (n div 10) @ [''0123456789'' ! (n mod 10)])"

definition str_tenths :: "real \<Rightarrow> string" where
  "str_tenths x =
     (let n = nat \<lfloor>\<bar>x\<bar> * 10\<rfloor>
      in (if x < 0 then ''-'' else []) @ digits_of (n div 10) @ ''.'' @ digits_of (n mod 10))"


subsection \<open>Scripted instruments\<close>

text \<open>
  An instrument that answers from a list of lines, and times out when the list is
  used up; \<open>bench\<close> puts it behind the decimal reader and writer above. The three
  scripts are a ramp that starts from \<^verbatim>\<open>CLAMP\<close> and is over after two turns of the
  loop, a turn that finds the magnet at 5.1 K and reads 4.9 K afterwards, and a
  turn that finds it at exactly the limit of 5 K.
\<close>

definition scripted :: "string list \<Rightarrow> nat \<Rightarrow> error + string" where
  "scripted replies k = (if k < length replies then Inr (replies ! k) else Inl VisaIOError)"

definition bench :: "string list \<Rightarrow> env" where
  "bench replies =
     \<lparr>py_float = decimal_float, py_str = str_tenths, py_format_1f = str_tenths,
      visa_reply = scripted replies\<rparr>"

definition clamp_run :: "string list" where
  "clamp_run =
     [''STAT:DEV:GRPZ:PSU:SIG:SWHT:ON'',
      ''STAT:DEV:GRPZ:PSU:SIG:FLD:0.0000T'',
      ''STAT:SET:DEV:GRPZ:PSU:SIG:FSET:1.0:VALID'',
      ''STAT:DEV:GRPZ:PSU:ACTN:CLMP'',
      ''STAT:SET:DEV:GRPZ:PSU:ACTN:HOLD:VALID'',
      ''STAT:SET:DEV:GRPZ:PSU:ACTN:RTOS:VALID'',
      ''STAT:DEV:GRPZ:PSU:ACTN:RTOS'',
      ''STAT:DEV:MB1.T1:TEMP:SIG:TEMP:4.2000K'',
      ''STAT:DEV:GRPZ:PSU:SIG:FLD:0.5000T'',
      ''STAT:DEV:GRPZ:PSU:ACTN:RTOS'',
      ''STAT:DEV:MB1.T1:TEMP:SIG:TEMP:5.0000K'',
      ''STAT:DEV:GRPZ:PSU:SIG:FLD:1.0000T'',
      ''STAT:DEV:GRPZ:PSU:ACTN:HOLD'']"

definition warm_run :: "string list" where
  "warm_run =
     [''STAT:DEV:GRPZ:PSU:ACTN:RTOS'',
      ''STAT:DEV:MB1.T1:TEMP:SIG:TEMP:5.1000K'',
      ''STAT:SET:DEV:GRPZ:PSU:ACTN:HOLD:VALID'',
      ''STAT:DEV:MB1.T1:TEMP:SIG:TEMP:4.9000K'']"


definition heater_on_run :: "string list" where
  "heater_on_run = [''STAT:DEV:GRPZ:PSU:SIG:SWHT:ON'']"

definition heater_off_run :: "string list" where
  "heater_off_run =
     [''STAT:DEV:GRPZ:PSU:SIG:SWHT:OFF'', ''STAT:SET:DEV:GRPZ:PSU:SIG:SWHT:ON:VALID'']"

section \<open>The parsers return the last field\<close>

lemma str_split_ne: "str_split sep s \<noteq> []"
  by (induction s) (auto split: list.splits)

lemma str_split_no_sep: "sep \<notin> set s \<Longrightarrow> str_split sep s = [s]"
  by (induction s) auto

lemma str_split_append: "str_split sep (pre @ sep # seg) = str_split sep pre @ str_split sep seg"
proof (induction pre)
  case Nil
  show ?case by simp
next
  case (Cons c pre)
  obtain f fs where "str_split sep pre = f # fs"
    using str_split_ne [of sep pre] by (cases "str_split sep pre") auto
  with Cons show ?case by simp
qed

lemma index_last_field:
  assumes "sep \<notin> set seg"
  shows "index_last (str_split sep (pre @ sep # seg)) = Inr seg"
    and "index_last (str_split sep seg) = Inr seg"
  using assms by (simp_all add: index_last_def str_split_append str_split_ne str_split_no_sep)

text \<open>
  C9, as the code has it: \<open>preparser\<close> (the spec's \<^verbatim>\<open>parse_status\<close>) splits the reply at
  the colons and returns the last field as it stands, and it does so for every
  input, the empty string too: the result is a string without a colon that is the
  whole reply or what follows the reply's last colon. It never fails.
\<close>

theorem preparser_last_segment:
  "\<exists>seg. preparser reply = Inr seg \<and> CHR '':'' \<notin> set seg \<and>
     (reply = seg \<or> (\<exists>pre. reply = pre @ CHR '':'' # seg))"
proof (cases "CHR '':'' \<in> set reply")
  case True
  then obtain pre seg where "reply = pre @ CHR '':'' # seg" and "CHR '':'' \<notin> set seg"
    using split_list_last [of "CHR '':''" reply] by blast
  then show ?thesis
    unfolding preparser_def using index_last_field(1) [of "CHR '':''" seg pre] by blast
next
  case False
  then show ?thesis
    unfolding preparser_def using index_last_field(2) [of "CHR '':''" reply] by blast
qed

text \<open>
  C9 as stated says that the parser fails on the empty string. It does not:
  \<^verbatim>\<open>''.split(':')\<close> is \<^verbatim>\<open>['']\<close>, whose last element is the empty string.
\<close>

theorem preparser_empty_reply: "preparser [] = Inr []"
  by (simp add: preparser_def index_last_def)

text \<open>
  C7: when the last field of a reply is a number (any text without a colon)
  followed by one unit character, \<open>singleunit_parser\<close> (the spec's
  \<^verbatim>\<open>parse_magnitude\<close>) returns what \<^verbatim>\<open>float\<close> makes of the number, whether or not fields
  come before it; the reply \<^verbatim>\<open>READ:DEV:GRPZ:PSU:SIG:FLD:1.2500T\<close> gives 1.25.
\<close>

theorem singleunit_parser_number:
  assumes "CHR '':'' \<notin> set num" and "u \<noteq> CHR '':''"
  shows "singleunit_parser float_of (pre @ '':'' @ num @ [u]) = float_of num
       \<and> singleunit_parser float_of (num @ [u]) = float_of num
       \<and> singleunit_parser decimal_float ''READ:DEV:GRPZ:PSU:SIG:FLD:1.2500T'' = Inr (5 / 4)"
proof -
  have seg: "CHR '':'' \<notin> set (num @ [u])"
    using assms by simp
  have "singleunit_parser float_of (pre @ CHR '':'' # (num @ [u])) = float_of num"
    unfolding singleunit_parser_def using index_last_field(1) [OF seg, of pre]
    by (simp add: slice_to_neg_def)
  moreover have "singleunit_parser float_of (num @ [u]) = float_of num"
    unfolding singleunit_parser_def using index_last_field(2) [OF seg]
    by (simp add: slice_to_neg_def)
  moreover have "singleunit_parser decimal_float ''READ:DEV:GRPZ:PSU:SIG:FLD:1.2500T'' = Inr (5 / 4)"
    by (simp add: singleunit_parser_def index_last_def slice_to_neg_def decimal_float_def
        unsigned_decimal_def digit_val_def)
  ultimately show ?thesis by simp
qed

theorem singleunit_parser_number_witness:
  "CHR '':'' \<notin> set ''1.2500'' \<and> CHR ''T'' \<noteq> CHR '':''
   \<and> singleunit_parser decimal_float (''READ:DEV:GRPZ:PSU:SIG:FLD'' @ '':'' @ ''1.2500'' @ ''T'') = Inr (5 / 4)
   \<and> singleunit_parser decimal_float (''1.2500'' @ ''T'') = Inr (5 / 4)"
proof -
  have d: "decimal_float ''1.2500'' = Inr (5 / 4)"
    by (simp add: decimal_float_def unsigned_decimal_def digit_val_def)
  have h1: "CHR '':'' \<notin> set ''1.2500''" by simp
  have h2: "CHR ''T'' \<noteq> CHR '':''" by simp
  show ?thesis
    using singleunit_parser_number [OF h1 h2, of decimal_float "''READ:DEV:GRPZ:PSU:SIG:FLD''"] d
    by simp
qed

text \<open>
  C5, as the code has it: \<open>rate_parser\<close> (the spec's \<^verbatim>\<open>parse_rate\<close>) drops the last
  three characters of the last field. When the last field is a number followed by
  a unit of three characters, such as \<^verbatim>\<open>A/m\<close>, it returns what \<^verbatim>\<open>float\<close> makes of the
  number; the reply \<^verbatim>\<open>READ:DEV:GRPZ:PSU:SIG:RCST:0.0500A/m\<close> gives 0.05.
\<close>

theorem rate_parser_number:
  assumes "CHR '':'' \<notin> set num" and "CHR '':'' \<notin> set unit" and "length unit = 3"
  shows "rate_parser float_of (pre @ '':'' @ num @ unit) = float_of num
       \<and> rate_parser float_of (num @ unit) = float_of num
       \<and> rate_parser decimal_float ''READ:DEV:GRPZ:PSU:SIG:RCST:0.0500A/m'' = Inr (1 / 20)"
proof -
  have seg: "CHR '':'' \<notin> set (num @ unit)"
    using assms by simp
  have "rate_parser float_of (pre @ CHR '':'' # (num @ unit)) = float_of num"
    unfolding rate_parser_def using index_last_field(1) [OF seg, of pre] assms(3)
    by (simp add: slice_to_neg_def)
  moreover have "rate_parser float_of (num @ unit) = float_of num"
    unfolding rate_parser_def using index_last_field(2) [OF seg] assms(3)
    by (simp add: slice_to_neg_def)
  moreover have "rate_parser decimal_float ''READ:DEV:GRPZ:PSU:SIG:RCST:0.0500A/m'' = Inr (1 / 20)"
    by (simp add: rate_parser_def index_last_def slice_to_neg_def decimal_float_def
        unsigned_decimal_def digit_val_def)
  ultimately show ?thesis by simp
qed

theorem rate_parser_number_witness:
  "CHR '':'' \<notin> set ''0.0500'' \<and> CHR '':'' \<notin> set ''A/m'' \<and> length ''A/m'' = 3
   \<and> rate_parser decimal_float (''READ:DEV:GRPZ:PSU:SIG:RCST'' @ '':'' @ ''0.0500'' @ ''A/m'') = Inr (1 / 20)
   \<and> rate_parser decimal_float (''0.0500'' @ ''A/m'') = Inr (1 / 20)"
proof -
  have d: "decimal_float ''0.0500'' = Inr (1 / 20)"
    by (simp add: decimal_float_def unsigned_decimal_def digit_val_def)
  have h1: "CHR '':'' \<notin> set ''0.0500''" by simp
  have h2: "CHR '':'' \<notin> set ''A/m''" by simp
  have h3: "length ''A/m'' = 3" by simp
  show ?thesis
    using rate_parser_number [OF h1 h2 h3, of decimal_float "''READ:DEV:GRPZ:PSU:SIG:RCST''"] d
    by simp
qed

text \<open>
  C5 as stated takes a unit of two characters. There the third dropped character is
  the number's last digit: the field \<^verbatim>\<open>1.25Am\<close> is read as 1.2, not as 1.25.
\<close>

theorem rate_parser_two_char_unit:
  "rate_parser decimal_float ''READ:DEV:GRPZ:PSU:SIG:RCST:1.25Am'' = Inr (6 / 5)
   \<and> decimal_float ''1.25'' = Inr (5 / 4)"
  by (simp add: rate_parser_def index_last_def slice_to_neg_def decimal_float_def
      unsigned_decimal_def digit_val_def)


section \<open>What one command does\<close>

lemma read_quantity_eq:
  "read_quantity w cmd p s =
     (reply_as w (asked s) p, s\<lparr>asked := Suc (asked s), trace := trace s @ [Ask cmd]\<rparr>)"
  by (simp add: read_quantity_def and_then_def ask_def lift_def reply_as_def split: sum.splits)

lemma write_quantity_eq:
  "write_quantity w cmd s =
     ((if answered w (asked s) then Inr () else Inl (projl (visa_reply w (asked s)))),
      s\<lparr>asked := Suc (asked s), trace := trace s @ [Ask cmd]\<rparr>)"
  by (simp add: write_quantity_def and_then_def ask_def ret_def answered_def split: sum.splits)

lemma to_wire_labels:
  "to_wire ''HOLD'' = Inr ''HOLD''" "to_wire ''TO SET'' = Inr ''RTOS''"
  by (simp_all add: to_wire_def val_mapping_def)

lemma from_wire_tokens:
  "from_wire ''HOLD'' = Inr ''HOLD''" "from_wire ''RTOS'' = Inr ''TO SET''"
  "from_wire ''CLMP'' = Inr ''CLAMP''" "from_wire ''RTOZ'' = Inr ''TO ZERO''"
  by (simp_all add: from_wire_def val_mapping_def)

lemma ramp_status_get_eq:
  "ramp_status_get w s =
     ((case token_at w (asked s) of Inl e \<Rightarrow> Inl e | Inr token \<Rightarrow> from_wire token),
      s\<lparr>asked := Suc (asked s), trace := trace s @ [Ask ''READ:DEV:GRPZ:PSU:ACTN'']\<rparr>)"
  by (simp add: ramp_status_get_def read_quantity_eq token_at_def reply_as_def uid_def
      psu_string_def split: sum.splits)

lemma ramp_status_set_eq:
  "to_wire label = Inr token \<Longrightarrow>
   ramp_status_set w label s =
     ((if answered w (asked s) then Inr () else Inl (projl (visa_reply w (asked s)))),
      s\<lparr>asked := Suc (asked s), trace := trace s @ [Ask (''SET:DEV:GRPZ:PSU:ACTN:'' @ token)]\<rparr>)"
  by (simp add: ramp_status_set_def and_then_def lift_def write_quantity_eq uid_def psu_string_def)

lemma temp_get_eq:
  "temp_get w s =
     (number_at w (asked s),
      s\<lparr>asked := Suc (asked s), trace := trace s @ [Ask ''READ:DEV:MB1.T1:TEMP:SIG:TEMP'']\<rparr>)"
  by (simp add: temp_get_def read_quantity_eq number_at_def)

lemma field_get_eq:
  "field_get w s =
     (number_at w (asked s),
      s\<lparr>asked := Suc (asked s), trace := trace s @ [Ask ''READ:DEV:GRPZ:PSU:SIG:FLD'']\<rparr>)"
  by (simp add: field_get_def read_quantity_eq number_at_def uid_def psu_string_def)

lemma switch_heater_get_eq:
  "switch_heater_get w s =
     (token_at w (asked s),
      s\<lparr>asked := Suc (asked s), trace := trace s @ [Ask ''READ:DEV:GRPZ:PSU:SIG:SWHT'']\<rparr>)"
  by (simp add: switch_heater_get_def read_quantity_eq token_at_def uid_def psu_string_def)

lemma print_field_status_line:
  "start \<noteq> stop \<Longrightarrow>
   print_field_status w start current stop s =
     (Inr (), s\<lparr>trace := trace s @
        [TqdmWrite
          (if \<bar>(start - current) / (start - stop)\<bar> < 1
           then ''Magnetic field ramp ''
                @ py_format_1f w (\<bar>(start - current) / (start - stop)\<bar> * 100) @ ''% done''
                @ replicate 30 (CHR '' '')
           else ''Waiting for field stabilization'' @ replicate 30 (CHR '' ''))]\<rparr>)"
  by (simp add: print_field_status_def status_fraction_def and_then_def lift_def emit_def)

lemmas bench_eval =
  token_at_def number_at_def reply_as_def answered_def steady_def bench_def scripted_def init_def
  preparser_def singleunit_parser_def index_last_def slice_to_neg_def decimal_float_def
  unsigned_decimal_def digit_val_def

lemma heater_run_replies:
  "token_at (bench heater_on_run) (asked init) = Inr ''ON''"
  "token_at (bench heater_off_run) (asked init) = Inr ''OFF''"
  "answered (bench heater_off_run) (Suc (asked init))"
  by (simp_all add: bench_eval heater_on_run_def heater_off_run_def)

lemma warm_run_replies:
  "token_at (bench warm_run) (asked init) = Inr ''RTOS''"
  "number_at (bench warm_run) (asked init + 1) = Inr (51 / 10)"
  "t_limit init < 51 / 10"
  "answered (bench warm_run) (asked init + 2)"
  "number_at (bench warm_run) (asked init + 3) = Inr (49 / 10)"
  by (simp_all add: bench_eval warm_run_def)


lemma clamp_run_replies:
  "token_at (bench clamp_run) (asked init) = Inr ''ON''"
  "number_at (bench clamp_run) (asked init + 1) = Inr 0"
  "answered (bench clamp_run) (asked init + 2)"
  "token_at (bench clamp_run) (asked init + 3) = Inr ''CLMP''"
  "answered (bench clamp_run) (asked init + 4)"
  "answered (bench clamp_run) (asked init + 5)"
  "steady (bench clamp_run) (t_limit init) (asked init + 6)"
  "steady (bench clamp_run) (t_limit init) (asked init + 9)"
  "token_at (bench clamp_run) (asked init + 12) = Inr ''HOLD''"
  by (simp_all add: bench_eval clamp_run_def)

section \<open>Switching the heater on\<close>

text \<open>
  C10: \<open>switch_heater_on_and_wait\<close> reads the switch heater. When the reading is not
  \<^verbatim>\<open>OFF\<close> (so when it is \<^verbatim>\<open>ON\<close>) that read is the only command sent: nothing is
  written, there is no sleep, the temperature limit is as before and the method
  returns. When the reading is \<^verbatim>\<open>OFF\<close> it writes \<^verbatim>\<open>ON\<close> and then sleeps 600 seconds.
\<close>

theorem switch_heater_on_and_wait_only_when_off:
  assumes "token_at w (asked s) = Inr heater"
  shows "(heater \<noteq> ''OFF'' \<longrightarrow>
            switch_heater_on_and_wait w s =
              (Inr (), s\<lparr>asked := Suc (asked s),
                          trace := trace s @ [Ask ''READ:DEV:GRPZ:PSU:SIG:SWHT'']\<rparr>))
       \<and> (heater = ''OFF'' \<longrightarrow> answered w (Suc (asked s)) \<longrightarrow>
            switch_heater_on_and_wait w s =
              (Inr (), s\<lparr>asked := Suc (Suc (asked s)),
                          trace := trace s @ [Ask ''READ:DEV:GRPZ:PSU:SIG:SWHT'',
                                              Ask ''SET:DEV:GRPZ:PSU:SIG:SWHT:ON'',
                                              Sleep 600]\<rparr>))"
  using assms
  by (simp add: switch_heater_on_and_wait_def switch_heater_get_eq switch_heater_set_def
      and_then_def write_quantity_eq ret_def sleep_def emit_def uid_def psu_string_def)

theorem switch_heater_on_and_wait_witness:
  "token_at (bench heater_on_run) (asked init) = Inr ''ON''
   \<and> switch_heater_on_and_wait (bench heater_on_run) init =
       (Inr (), \<lparr>t_limit = 5, asked = 1, trace = [Ask ''READ:DEV:GRPZ:PSU:SIG:SWHT'']\<rparr>)
   \<and> token_at (bench heater_off_run) (asked init) = Inr ''OFF''
   \<and> answered (bench heater_off_run) (Suc (asked init))
   \<and> switch_heater_on_and_wait (bench heater_off_run) init =
       (Inr (), \<lparr>t_limit = 5, asked = 2,
                 trace = [Ask ''READ:DEV:GRPZ:PSU:SIG:SWHT'',
                          Ask ''SET:DEV:GRPZ:PSU:SIG:SWHT:ON'',
                          Sleep 600]\<rparr>)"
  using switch_heater_on_and_wait_only_when_off [OF heater_run_replies(1)]
        switch_heater_on_and_wait_only_when_off [OF heater_run_replies(2)]
        heater_run_replies
  by (simp add: init_def)

section \<open>One turn of the ramp loop\<close>

lemma poll_left:
  assumes "token_at w (asked s) = Inr token" and "token \<in> {''HOLD'', ''CLMP'', ''RTOZ''}"
  shows "poll w start target s =
           (Inr False, s\<lparr>asked := Suc (asked s), trace := trace s @ [Ask ''READ:DEV:GRPZ:PSU:ACTN'']\<rparr>)"
  using assms
  by (auto simp add: poll_def and_then_def ramp_status_get_eq from_wire_tokens ret_def)

lemma poll_steady:
  assumes "steady w (t_limit s) (asked s)" and "start \<noteq> target"
  shows "\<exists>line. poll w start target s =
           (Inr True, s\<lparr>asked := asked s + 3,
                        trace := trace s @ [Ask ''READ:DEV:GRPZ:PSU:ACTN'',
                                            Ask ''READ:DEV:MB1.T1:TEMP:SIG:TEMP'',
                                            Sleep (1 / 10),
                                            Ask ''READ:DEV:GRPZ:PSU:SIG:FLD'',
                                            TqdmWrite line]\<rparr>)"
proof -
  from assms(1) obtain t current where
    tok: "token_at w (asked s) = Inr ''RTOS''" and
    t: "number_at w (Suc (asked s)) = Inr t" "t \<le> t_limit s" and
    c: "number_at w (Suc (Suc (asked s))) = Inr current"
    by (auto simp add: steady_def split: sum.splits)
  let ?s3 = "s\<lparr>asked := Suc (Suc (Suc (asked s))),
               trace := trace s @ [Ask ''READ:DEV:GRPZ:PSU:ACTN'', Ask ''READ:DEV:MB1.T1:TEMP:SIG:TEMP'',
                                   Sleep (1 / 10), Ask ''READ:DEV:GRPZ:PSU:SIG:FLD'']\<rparr>"
  obtain line where
    p: "print_field_status w start current target ?s3 = (Inr (), ?s3\<lparr>trace := trace ?s3 @ [TqdmWrite line]\<rparr>)"
    using print_field_status_line [OF assms(2)] by blast
  have "poll w start target s = (Inr True, ?s3\<lparr>trace := trace ?s3 @ [TqdmWrite line]\<rparr>)"
    using tok t c p
    by (simp add: poll_def and_then_def ramp_status_get_eq from_wire_tokens temp_get_eq
        temp_limit_get_def t_limit_reader_def sleep_def emit_def field_get_eq ret_def)
  then show ?thesis by (intro exI [of _ line]) (simp add: eval_nat_numeral)
qed

lemma poll_warm:
  assumes "token_at w (asked s) = Inr ''RTOS''"
      and "number_at w (asked s + 1) = Inr t" and "t_limit s < t"
  shows "\<exists>e s' rest. poll w start target s = (Inl e, s')
           \<and> trace s' = trace s @ [Ask ''READ:DEV:GRPZ:PSU:ACTN'',
                                    Ask ''READ:DEV:MB1.T1:TEMP:SIG:TEMP'',
                                    Ask ''SET:DEV:GRPZ:PSU:ACTN:HOLD''] @ rest
           \<and> set rest \<subseteq> {Ask ''READ:DEV:MB1.T1:TEMP:SIG:TEMP''}"
  using assms
  by (cases "answered w (Suc (Suc (asked s)))"; cases "number_at w (Suc (Suc (Suc (asked s))))")
     (simp_all add: poll_def and_then_def ramp_status_get_eq from_wire_tokens temp_get_eq
      temp_limit_get_def t_limit_reader_def ramp_status_set_eq [OF to_wire_labels(1)]
      raise_err_def)

lemma poll_trip:
  assumes "token_at w (asked s) = Inr ''RTOS''"
      and "number_at w (asked s + 1) = Inr t" and "t_limit s < t"
      and "answered w (asked s + 2)"
      and "number_at w (asked s + 3) = Inr t'"
  shows "poll w start target s =
          (Inl (ValueError (temperature_message w (t_limit s) t')),
                 s\<lparr>asked := asked s + 4,
                    trace := trace s @ [Ask ''READ:DEV:GRPZ:PSU:ACTN'',
                                        Ask ''READ:DEV:MB1.T1:TEMP:SIG:TEMP'',
                                        Ask ''SET:DEV:GRPZ:PSU:ACTN:HOLD'',
                                        Ask ''READ:DEV:MB1.T1:TEMP:SIG:TEMP'']\<rparr>)"
  using assms
  by (simp add: poll_def and_then_def ramp_status_get_eq from_wire_tokens temp_get_eq
      temp_limit_get_def t_limit_reader_def ramp_status_set_eq [OF to_wire_labels(1)]
      raise_err_def eval_nat_numeral)



section \<open>The temperature interlock\<close>

text \<open>
  C2, as the code has it: when a turn of the loop finds the supply ramping and the
  magnet warmer than the limit, the loop ends there with an error: the write of
  \<^verbatim>\<open>HOLD\<close> has been sent, at most one command follows it (a second read of the
  temperature), and no further turn is run. When that write is answered and the
  second reading can be parsed, the error is the \<^verbatim>\<open>ValueError\<close> whose message holds
  the limit and the second reading \<open>t'\<close>, not the reading \<open>t\<close> that tripped the
  interlock.
\<close>

theorem hold_then_temperature_error:
  assumes "token_at w (asked s) = Inr ''RTOS''"
      and "number_at w (asked s + 1) = Inr t" and "t_limit s < t"
  shows "(\<exists>e s' rest. ramp_loop w start target s = Some (Inl e, s')
            \<and> trace s' = trace s @ [Ask ''READ:DEV:GRPZ:PSU:ACTN'',
                                     Ask ''READ:DEV:MB1.T1:TEMP:SIG:TEMP'',
                                     Ask ''SET:DEV:GRPZ:PSU:ACTN:HOLD''] @ rest
            \<and> set rest \<subseteq> {Ask ''READ:DEV:MB1.T1:TEMP:SIG:TEMP''})
       \<and> (answered w (asked s + 2) \<longrightarrow> number_at w (asked s + 3) = Inr t' \<longrightarrow>
            ramp_loop w start target s =
              Some (Inl (ValueError (temperature_message w (t_limit s) t')),
                    s\<lparr>asked := asked s + 4,
                       trace := trace s @ [Ask ''READ:DEV:GRPZ:PSU:ACTN'',
                                           Ask ''READ:DEV:MB1.T1:TEMP:SIG:TEMP'',
                                           Ask ''SET:DEV:GRPZ:PSU:ACTN:HOLD'',
                                           Ask ''READ:DEV:MB1.T1:TEMP:SIG:TEMP'']\<rparr>))"
proof (intro conjI impI)
  from poll_warm [OF assms, of start target] obtain e s' rest where
    "poll w start target s = (Inl e, s')" and
    "trace s' = trace s @ [Ask ''READ:DEV:GRPZ:PSU:ACTN'',
                           Ask ''READ:DEV:MB1.T1:TEMP:SIG:TEMP'',
                           Ask ''SET:DEV:GRPZ:PSU:ACTN:HOLD''] @ rest" and
    "set rest \<subseteq> {Ask ''READ:DEV:MB1.T1:TEMP:SIG:TEMP''}"
    by blast
  moreover from this(1) have "ramp_loop w start target s = Some (Inl e, s')"
    by (subst ramp_loop.simps) simp
  ultimately show "\<exists>e s' rest. ramp_loop w start target s = Some (Inl e, s')
            \<and> trace s' = trace s @ [Ask ''READ:DEV:GRPZ:PSU:ACTN'',
                                     Ask ''READ:DEV:MB1.T1:TEMP:SIG:TEMP'',
                                     Ask ''SET:DEV:GRPZ:PSU:ACTN:HOLD''] @ rest
            \<and> set rest \<subseteq> {Ask ''READ:DEV:MB1.T1:TEMP:SIG:TEMP''}"
    by blast
next
  assume "answered w (asked s + 2)" and "number_at w (asked s + 3) = Inr t'"
  from poll_trip [OF assms this, of start target]
  show "ramp_loop w start target s =
              Some (Inl (ValueError (temperature_message w (t_limit s) t')),
                    s\<lparr>asked := asked s + 4,
                       trace := trace s @ [Ask ''READ:DEV:GRPZ:PSU:ACTN'',
                                           Ask ''READ:DEV:MB1.T1:TEMP:SIG:TEMP'',
                                           Ask ''SET:DEV:GRPZ:PSU:ACTN:HOLD'',
                                           Ask ''READ:DEV:MB1.T1:TEMP:SIG:TEMP'']\<rparr>)"
    by (subst ramp_loop.simps) simp
qed

theorem hold_then_temperature_error_witness:
  "token_at (bench warm_run) (asked init) = Inr ''RTOS''
   \<and> number_at (bench warm_run) (asked init + 1) = Inr (51 / 10) \<and> t_limit init < 51 / 10
   \<and> answered (bench warm_run) (asked init + 2)
   \<and> number_at (bench warm_run) (asked init + 3) = Inr (49 / 10)
   \<and> ramp_loop (bench warm_run) 0 1 init =
       Some (Inl (ValueError (temperature_message (bench warm_run) 5 (49 / 10))),
             \<lparr>t_limit = 5, asked = 4,
              trace = [Ask ''READ:DEV:GRPZ:PSU:ACTN'',
                       Ask ''READ:DEV:MB1.T1:TEMP:SIG:TEMP'',
                       Ask ''SET:DEV:GRPZ:PSU:ACTN:HOLD'',
                       Ask ''READ:DEV:MB1.T1:TEMP:SIG:TEMP'']\<rparr>)"
  using hold_then_temperature_error [OF warm_run_replies(1-3), of 0 1 "49 / 10"] warm_run_replies
  by (simp add: init_def)

text \<open>
  C2 as stated has the error hold the temperature that was reached. On the
  instrument \<open>warm_run\<close> the loop reads 5.1 K, above the limit of 5 K, and the
  error it raises says that 4.9 was reached: the value of the read that follows
  the write of \<^verbatim>\<open>HOLD\<close>.
\<close>

theorem temperature_error_rereads_temp:
  "number_at (bench warm_run) 1 = Inr (51 / 10)
   \<and> ramp_loop (bench warm_run) 0 1 init =
       Some (Inl (ValueError (''Magnet ramp stopped since its temperatureexceeded the safety limit:''
                              @ ''Temperature safety limit = 5.0Temperature reached = 4.9'')),
             \<lparr>t_limit = 5, asked = 4,
              trace = [Ask ''READ:DEV:GRPZ:PSU:ACTN'',
                       Ask ''READ:DEV:MB1.T1:TEMP:SIG:TEMP'',
                       Ask ''SET:DEV:GRPZ:PSU:ACTN:HOLD'',
                       Ask ''READ:DEV:MB1.T1:TEMP:SIG:TEMP'']\<rparr>)"
proof -
  have "ramp_loop (bench warm_run) 0 1 init =
          Some (Inl (ValueError (temperature_message (bench warm_run) (t_limit init) (49 / 10))),
                init\<lparr>asked := asked init + 4,
                    trace := trace init @ [Ask ''READ:DEV:GRPZ:PSU:ACTN'',
                                        Ask ''READ:DEV:MB1.T1:TEMP:SIG:TEMP'',
                                        Ask ''SET:DEV:GRPZ:PSU:ACTN:HOLD'',
                                        Ask ''READ:DEV:MB1.T1:TEMP:SIG:TEMP'']\<rparr>)"
    using poll_trip [OF warm_run_replies, of 0 1] by (subst ramp_loop.simps) simp
  moreover have "temperature_message (bench warm_run) (t_limit init) (49 / 10) =
      ''Magnet ramp stopped since its temperatureexceeded the safety limit:''
       @ ''Temperature safety limit = 5.0Temperature reached = 4.9''"
    by (simp add: temperature_message_def bench_def str_tenths_def init_def)
  moreover have "number_at (bench warm_run) 1 = Inr (51 / 10)"
    using warm_run_replies(2) by (simp add: init_def)
  ultimately show ?thesis by (simp add: init_def)
qed

section \<open>The supervised ramp\<close>

lemma ramp_loop_completes:
  assumes "\<forall>i<n. steady w (t_limit s) (asked s + 3 * i)"
      and "token_at w (asked s + 3 * n) = Inr token"
      and "token \<in> {''HOLD'', ''CLMP'', ''RTOZ''}"
      and "start \<noteq> target"
  shows "\<exists>s'. ramp_loop w start target s = Some (Inr (), s')
           \<and> commands s' = commands s
                @ concat (replicate n [''READ:DEV:GRPZ:PSU:ACTN'', ''READ:DEV:MB1.T1:TEMP:SIG:TEMP'',
                                       ''READ:DEV:GRPZ:PSU:SIG:FLD''])
                @ [''READ:DEV:GRPZ:PSU:ACTN'']"
  using assms
proof (induction n arbitrary: s)
  case 0
  then have "poll w start target s =
      (Inr False, s\<lparr>asked := Suc (asked s), trace := trace s @ [Ask ''READ:DEV:GRPZ:PSU:ACTN'']\<rparr>)"
    using poll_left [of w s token start target] by simp
  then show ?case
    by (subst ramp_loop.simps) (simp add: commands_def)
next
  case (Suc n)
  from Suc.prems(1) have "steady w (t_limit s) (asked s)"
    by (metis add.right_neutral mult_0_right zero_less_Suc)
  from poll_steady [OF this Suc.prems(4)] obtain line where
    p: "poll w start target s =
           (Inr True, s\<lparr>asked := asked s + 3,
                        trace := trace s @ [Ask ''READ:DEV:GRPZ:PSU:ACTN'',
                                            Ask ''READ:DEV:MB1.T1:TEMP:SIG:TEMP'',
                                            Sleep (1 / 10),
                                            Ask ''READ:DEV:GRPZ:PSU:SIG:FLD'',
                                            TqdmWrite line]\<rparr>)"
    by blast
  define s1 where "s1 = s\<lparr>asked := asked s + 3,
                        trace := trace s @ [Ask ''READ:DEV:GRPZ:PSU:ACTN'',
                                            Ask ''READ:DEV:MB1.T1:TEMP:SIG:TEMP'',
                                            Sleep (1 / 10),
                                            Ask ''READ:DEV:GRPZ:PSU:SIG:FLD'',
                                            TqdmWrite line]\<rparr>"
  have a1: "asked s1 = asked s + 3" and l1: "t_limit s1 = t_limit s"
    by (simp_all add: s1_def)
  have c1: "commands s1 = commands s @ [''READ:DEV:GRPZ:PSU:ACTN'', ''READ:DEV:MB1.T1:TEMP:SIG:TEMP'',
                                       ''READ:DEV:GRPZ:PSU:SIG:FLD'']"
    by (simp add: s1_def commands_def)
  have st: "\<forall>i<n. steady w (t_limit s1) (asked s1 + 3 * i)"
  proof (intro allI impI)
    fix i assume "i < n"
    then have "Suc i < Suc n" by simp
    with Suc.prems(1) have "steady w (t_limit s) (asked s + 3 * Suc i)"
      by blast
    then show "steady w (t_limit s1) (asked s1 + 3 * i)"
      by (simp add: a1 l1 add.assoc)
  qed
  have tk: "token_at w (asked s1 + 3 * n) = Inr token"
    using Suc.prems(2) by (simp add: a1 add.assoc)
  from Suc.IH [OF st tk Suc.prems(3) Suc.prems(4)] obtain s' where
    r: "ramp_loop w start target s1 = Some (Inr (), s')" and
    c: "commands s' = commands s1
                @ concat (replicate n [''READ:DEV:GRPZ:PSU:ACTN'', ''READ:DEV:MB1.T1:TEMP:SIG:TEMP'',
                                       ''READ:DEV:GRPZ:PSU:SIG:FLD''])
                @ [''READ:DEV:GRPZ:PSU:ACTN'']"
    by blast
  have "ramp_loop w start target s = Some (Inr (), s')"
    using p r by (subst ramp_loop.simps) (simp add: s1_def)
  with c c1 show ?case by simp
qed

text \<open>
  C1: the heater reads \<^verbatim>\<open>ON\<close>, the field reads 0.0, the target is 1.0 and the
  supply reports \<^verbatim>\<open>CLAMP\<close>. Let the supply then report \<^verbatim>\<open>RTOS\<close> for \<open>n\<close> turns of the
  loop, with the magnet no warmer than the limit, and something else after that.
  Then \<open>set_field_and_ramp_blocking\<close> returns normally, and the commands it has sent
  are, in this order: read the switch heater, read the field, write the field
  target 1.0, read the ramp status, write \<^verbatim>\<open>HOLD\<close>, write \<^verbatim>\<open>RTOS\<close> (the label
  \<^verbatim>\<open>TO SET\<close>), then \<open>n\<close> times the reads of ramp status, temperature and field, and
  the last read of the ramp status.
\<close>

theorem ramp_from_clamp_command_sequence:
  assumes "token_at w (asked s) = Inr ''ON''"
      and "number_at w (asked s + 1) = Inr 0"
      and "answered w (asked s + 2)"
      and "token_at w (asked s + 3) = Inr ''CLMP''"
      and "answered w (asked s + 4)"
      and "answered w (asked s + 5)"
      and "\<forall>i<n. steady w (t_limit s) (asked s + 6 + 3 * i)"
      and "token_at w (asked s + 6 + 3 * n) = Inr token"
      and "token \<in> {''HOLD'', ''CLMP'', ''RTOZ''}"
  shows "\<exists>s'. set_field_and_ramp_blocking w 1 s = Some (Inr (), s')
           \<and> commands s' = commands s
                @ [''READ:DEV:GRPZ:PSU:SIG:SWHT'',
                   ''READ:DEV:GRPZ:PSU:SIG:FLD'',
                   ''SET:DEV:GRPZ:PSU:SIG:FSET:'' @ py_str w 1,
                   ''READ:DEV:GRPZ:PSU:ACTN'',
                   ''SET:DEV:GRPZ:PSU:ACTN:HOLD'',
                   ''SET:DEV:GRPZ:PSU:ACTN:RTOS'']
                @ concat (replicate n [''READ:DEV:GRPZ:PSU:ACTN'', ''READ:DEV:MB1.T1:TEMP:SIG:TEMP'',
                                       ''READ:DEV:GRPZ:PSU:SIG:FLD''])
                @ [''READ:DEV:GRPZ:PSU:ACTN'']"
proof -
  define s6 where "s6 = s\<lparr>asked := asked s + 6,
                          trace := trace s @ [Ask ''READ:DEV:GRPZ:PSU:SIG:SWHT'',
                                              Ask ''READ:DEV:GRPZ:PSU:SIG:FLD'',
                                              Ask (''SET:DEV:GRPZ:PSU:SIG:FSET:'' @ py_str w 1),
                                              Ask ''READ:DEV:GRPZ:PSU:ACTN'',
                                              Ask ''SET:DEV:GRPZ:PSU:ACTN:HOLD'',
                                              Ask ''SET:DEV:GRPZ:PSU:ACTN:RTOS'']\<rparr>"
  have start: "set_field_and_ramp_blocking w 1 s = ramp_loop w 0 1 s6"
    using assms(1-6)
    by (simp add: set_field_and_ramp_blocking_def switch_heater_get_eq and_then_def field_get_eq
        field_target_set_def write_quantity_eq ramp_to_target_def ramp_status_get_eq
        from_wire_tokens ramp_status_set_eq [OF to_wire_labels(1)]
        ramp_status_set_eq [OF to_wire_labels(2)] ret_def uid_def psu_string_def s6_def
        eval_nat_numeral)
  have a6: "asked s6 = asked s + 6" and l6: "t_limit s6 = t_limit s"
    by (simp_all add: s6_def)
  have c6: "commands s6 = commands s
                @ [''READ:DEV:GRPZ:PSU:SIG:SWHT'',
                   ''READ:DEV:GRPZ:PSU:SIG:FLD'',
                   ''SET:DEV:GRPZ:PSU:SIG:FSET:'' @ py_str w 1,
                   ''READ:DEV:GRPZ:PSU:ACTN'',
                   ''SET:DEV:GRPZ:PSU:ACTN:HOLD'',
                   ''SET:DEV:GRPZ:PSU:ACTN:RTOS'']"
    by (simp add: s6_def commands_def)
  have st: "\<forall>i<n. steady w (t_limit s6) (asked s6 + 3 * i)"
    using assms(7) by (simp add: a6 l6)
  have tk: "token_at w (asked s6 + 3 * n) = Inr token"
    using assms(8) by (simp add: a6)
  have ne: "(0::real) \<noteq> 1" by simp
  from ramp_loop_completes [OF st tk assms(9) ne] obtain s' where
    "ramp_loop w 0 1 s6 = Some (Inr (), s')" and
    "commands s' = commands s6
                @ concat (replicate n [''READ:DEV:GRPZ:PSU:ACTN'', ''READ:DEV:MB1.T1:TEMP:SIG:TEMP'',
                                       ''READ:DEV:GRPZ:PSU:SIG:FLD''])
                @ [''READ:DEV:GRPZ:PSU:ACTN'']"
    by blast
  with start c6 show ?thesis by simp
qed

theorem ramp_from_clamp_command_sequence_witness:
  "token_at (bench clamp_run) (asked init) = Inr ''ON''
   \<and> number_at (bench clamp_run) (asked init + 1) = Inr 0
   \<and> answered (bench clamp_run) (asked init + 2)
   \<and> token_at (bench clamp_run) (asked init + 3) = Inr ''CLMP''
   \<and> answered (bench clamp_run) (asked init + 4)
   \<and> answered (bench clamp_run) (asked init + 5)
   \<and> steady (bench clamp_run) (t_limit init) (asked init + 6)
   \<and> steady (bench clamp_run) (t_limit init) (asked init + 9)
   \<and> token_at (bench clamp_run) (asked init + 12) = Inr ''HOLD''
   \<and> (\<exists>s'. set_field_and_ramp_blocking (bench clamp_run) 1 init = Some (Inr (), s')
          \<and> commands s' =
              [''READ:DEV:GRPZ:PSU:SIG:SWHT'',
               ''READ:DEV:GRPZ:PSU:SIG:FLD'',
               ''SET:DEV:GRPZ:PSU:SIG:FSET:1.0'',
               ''READ:DEV:GRPZ:PSU:ACTN'',
               ''SET:DEV:GRPZ:PSU:ACTN:HOLD'',
               ''SET:DEV:GRPZ:PSU:ACTN:RTOS'',
               ''READ:DEV:GRPZ:PSU:ACTN'',
               ''READ:DEV:MB1.T1:TEMP:SIG:TEMP'',
               ''READ:DEV:GRPZ:PSU:SIG:FLD'',
               ''READ:DEV:GRPZ:PSU:ACTN'',
               ''READ:DEV:MB1.T1:TEMP:SIG:TEMP'',
               ''READ:DEV:GRPZ:PSU:SIG:FLD'',
               ''READ:DEV:GRPZ:PSU:ACTN''])"
proof -
  have turns: "\<forall>i<2. steady (bench clamp_run) (t_limit init) (asked init + 6 + 3 * i)"
  proof (intro allI impI)
    fix i :: nat assume "i < 2"
    then have "i = 0 \<or> i = 1" by arith
    then show "steady (bench clamp_run) (t_limit init) (asked init + 6 + 3 * i)"
      using clamp_run_replies(7,8) by (auto simp add: init_def)
  qed
  have last: "token_at (bench clamp_run) (asked init + 6 + 3 * 2) = Inr ''HOLD''"
    using clamp_run_replies(9) by (simp add: init_def)
  have tok: "''HOLD'' \<in> {''HOLD'', ''CLMP'', ''RTOZ''}" by simp
  from ramp_from_clamp_command_sequence [OF clamp_run_replies(1-6) turns last tok]
  obtain s' where
    "set_field_and_ramp_blocking (bench clamp_run) 1 init = Some (Inr (), s')" and
    "commands s' = commands init
                @ [''READ:DEV:GRPZ:PSU:SIG:SWHT'',
                   ''READ:DEV:GRPZ:PSU:SIG:FLD'',
                   ''SET:DEV:GRPZ:PSU:SIG:FSET:'' @ py_str (bench clamp_run) 1,
                   ''READ:DEV:GRPZ:PSU:ACTN'',
                   ''SET:DEV:GRPZ:PSU:ACTN:HOLD'',
                   ''SET:DEV:GRPZ:PSU:ACTN:RTOS'']
                @ concat (replicate 2 [''READ:DEV:GRPZ:PSU:ACTN'', ''READ:DEV:MB1.T1:TEMP:SIG:TEMP'',
                                       ''READ:DEV:GRPZ:PSU:SIG:FLD''])
                @ [''READ:DEV:GRPZ:PSU:ACTN'']"
    by blast
  moreover have "py_str (bench clamp_run) 1 = ''1.0''"
    by (simp add: bench_def str_tenths_def)
  moreover have "commands init = []"
    by (simp add: commands_def init_def)
  ultimately have "\<exists>s'. set_field_and_ramp_blocking (bench clamp_run) 1 init = Some (Inr (), s')
          \<and> commands s' =
              [''READ:DEV:GRPZ:PSU:SIG:SWHT'',
               ''READ:DEV:GRPZ:PSU:SIG:FLD'',
               ''SET:DEV:GRPZ:PSU:SIG:FSET:1.0'',
               ''READ:DEV:GRPZ:PSU:ACTN'',
               ''SET:DEV:GRPZ:PSU:ACTN:HOLD'',
               ''SET:DEV:GRPZ:PSU:ACTN:RTOS'',
               ''READ:DEV:GRPZ:PSU:ACTN'',
               ''READ:DEV:MB1.T1:TEMP:SIG:TEMP'',
               ''READ:DEV:GRPZ:PSU:SIG:FLD'',
               ''READ:DEV:GRPZ:PSU:ACTN'',
               ''READ:DEV:MB1.T1:TEMP:SIG:TEMP'',
               ''READ:DEV:GRPZ:PSU:SIG:FLD'',
               ''READ:DEV:GRPZ:PSU:ACTN'']"
    by (simp add: eval_nat_numeral)
  with clamp_run_replies show ?thesis by simp
qed

text \<open>
  C4, on the code: when the switch heater reads \<^verbatim>\<open>OFF\<close>, whatever the target,
  \<open>set_field_and_ramp_blocking\<close> sends the read of the heater and nothing else,
  prints its line and ends in an error, so the ramp is not started and the ramp
  status is not written. The error is the \<^verbatim>\<open>TypeError\<close> that \<^verbatim>\<open>raise print(...)\<close>
  gives, not an error that says that the heater is off.
\<close>

theorem heater_off_raises_type_error:
  assumes "token_at w (asked s) = Inr ''OFF''"
  shows "set_field_and_ramp_blocking w target s =
           Some (Inl TypeError,
                 s\<lparr>asked := Suc (asked s),
                    trace := trace s @ [Ask ''READ:DEV:GRPZ:PSU:SIG:SWHT'',
                                        Print ''Switch heater is off. Use switch_heater_on_and_wait() function.'']\<rparr>)"
  using assms
  by (simp add: set_field_and_ramp_blocking_def switch_heater_get_eq and_then_def emit_def
      raise_err_def)

theorem heater_off_raises_type_error_witness:
  "token_at (bench heater_off_run) (asked init) = Inr ''OFF''
   \<and> set_field_and_ramp_blocking (bench heater_off_run) 1 init =
       Some (Inl TypeError,
             \<lparr>t_limit = 5, asked = 1,
              trace = [Ask ''READ:DEV:GRPZ:PSU:SIG:SWHT'',
                       Print ''Switch heater is off. Use switch_heater_on_and_wait() function.'']\<rparr>)"
  using heater_off_raises_type_error [OF heater_run_replies(2), of 1] heater_run_replies(2)
  by (simp add: init_def)

text \<open>
  C6: writing the quantity \<^verbatim>\<open>field\<close> with a value below -7 or above 7 fails with the
  \<open>ValidationError\<close> that carries the range from -7 to 7, and leaves the state as it
  was: no command has been sent, and none is sent after it.
\<close>

theorem field_out_of_range_rejected:
  assumes "x < - 7 \<or> 7 < x"
  shows "field_set w x s = Some (Inl (ValidationError (- 7) 7), s)"
  using assms by (auto simp add: field_set_def)

theorem field_out_of_range_rejected_witness:
  "((8::real) < - 7 \<or> (7::real) < 8)
   \<and> field_set (bench []) 8 init = Some (Inl (ValidationError (- 7) 7), init)"
  using field_out_of_range_rejected [of 8 "bench []" init] by simp

section \<open>The progress fraction\<close>

text \<open>
  C8: the fraction that \<open>print_field_status\<close> computes is 1 when the current field
  is the target and is the quotient of \<open>\<bar>start - current\<bar>\<close> by \<open>\<bar>start - target\<bar>\<close>,
  a number, for every current field, as long as start and target differ. When
  start and target are equal the division is by zero: the computation, and the
  method with it, raises \<^verbatim>\<open>ZeroDivisionError\<close>.
\<close>

theorem status_fraction_defined:
  "(start \<noteq> target \<longrightarrow> status_fraction start target target = Inr 1)
   \<and> (start \<noteq> target \<longrightarrow>
        status_fraction start current target = Inr (\<bar>start - current\<bar> / \<bar>start - target\<bar>))
   \<and> status_fraction target current target = Inl ZeroDivisionError
   \<and> print_field_status w target current target s = (Inl ZeroDivisionError, s)"
  by (simp add: status_fraction_def print_field_status_def and_then_def lift_def)

theorem status_fraction_defined_witness:
  "(0::real) \<noteq> 1
   \<and> status_fraction 0 1 1 = Inr 1
   \<and> status_fraction 0 (1 / 2) 1 = Inr (\<bar>0 - 1 / 2\<bar> / \<bar>0 - 1\<bar>)
   \<and> status_fraction 1 (1 / 2) 1 = Inl ZeroDivisionError
   \<and> print_field_status (bench []) 1 (1 / 2) 1 init = (Inl ZeroDivisionError, init)"
  using status_fraction_defined [of 0 1 "1 / 2" "bench []" init]
        status_fraction_defined [of 1 1 "1 / 2" "bench []" init]
  by simp

end
